theory Spec2Isabelle
  imports Complex_Main
begin

section \<open>Python values\<close>

text \<open>
  The handler of \<^verbatim>\<open>src/lambda_functions/moderate_image.py\<close> receives the decoded JSON
  payload of a Slack event as a Python \<^verbatim>\<open>dict\<close>. A JSON value is one of the
  constructors below; Python's \<^verbatim>\<open>None\<close> is \<open>JNull\<close>, a \<^verbatim>\<open>dict\<close> is an association
  list read with \<open>map_of\<close> (JSON keys are strings), a finite \<^verbatim>\<open>float\<close> is a rational.
  The program compares event values with string constants only (\<^verbatim>\<open>!=\<close>, \<^verbatim>\<open>not in\<close>), where
  Python's \<^verbatim>\<open>==\<close> and the equality of this type agree: a string equals only the same
  string.
\<close>

datatype json =
    JNull
  | JBool bool
  | JInt int
  | JFloat rat
  | JStr string
  | JList "json list"
  | JDict "(string \<times> json) list"

type_synonym dict = "(string \<times> json) list"

type_synonym bytes = string

text \<open>
  The exceptions of the program: the lookup errors Python raises on a missing key, on
  subscripting or comparing a value of the wrong type and on calling \<^verbatim>\<open>.get\<close> on a value
  that is no dict, the \<^verbatim>\<open>ValueError\<close> of a refused URL, and \<open>Raised msg\<close> for whatever
  an outbound call raises (\<^verbatim>\<open>URLError\<close>, \<^verbatim>\<open>HTTPError\<close>, a botocore \<^verbatim>\<open>ClientError\<close>, ...).
\<close>

datatype exn =
    KeyError string
  | TypeError
  | AttributeError
  | ValueError
  | Raised string

text \<open>\<^verbatim>\<open>d[k]\<close> on a dict.\<close>

definition dict_item :: "dict \<Rightarrow> string \<Rightarrow> exn + json" where
  "dict_item d k = (case map_of d k of None \<Rightarrow> Inl (KeyError k) | Some v \<Rightarrow> Inr v)"

text \<open>\<^verbatim>\<open>d.get(k)\<close> on a dict: \<^verbatim>\<open>None\<close> when the key is missing.\<close>

definition dict_get :: "dict \<Rightarrow> string \<Rightarrow> json" where
  "dict_get d k = (case map_of d k of None \<Rightarrow> JNull | Some v \<Rightarrow> v)"

text \<open>\<^verbatim>\<open>v[k]\<close> with a string key on any value: only a dict can be subscripted by a string.\<close>

fun py_getitem :: "json \<Rightarrow> string \<Rightarrow> exn + json" where
  "py_getitem (JDict d) k = dict_item d k"
| "py_getitem _ k = Inl TypeError"

text \<open>\<^verbatim>\<open>v.get(k)\<close> on any value: only a dict has the method.\<close>

fun py_get :: "json \<Rightarrow> string \<Rightarrow> exn + json" where
  "py_get (JDict d) k = Inr (dict_get d k)"
| "py_get _ k = Inl AttributeError"

text \<open>\<^verbatim>\<open>v > n\<close> for an integer \<open>n\<close>: numbers compare by value (\<^verbatim>\<open>bool\<close> is a subclass of
  \<^verbatim>\<open>int\<close>), every other type raises \<^verbatim>\<open>TypeError\<close>.\<close>

fun py_gt :: "json \<Rightarrow> int \<Rightarrow> exn + bool" where
  "py_gt (JInt i) n = Inr (i > n)"
| "py_gt (JBool b) n = Inr ((if b then 1 else 0) > n)"
| "py_gt (JFloat q) n = Inr (q > of_int n)"
| "py_gt _ n = Inl TypeError"

text \<open>Truth value of a value, as \<^verbatim>\<open>not v\<close> reads it.\<close>

fun py_bool :: "json \<Rightarrow> bool" where
  "py_bool JNull = False"
| "py_bool (JBool b) = b"
| "py_bool (JInt i) = (i \<noteq> 0)"
| "py_bool (JFloat q) = (q \<noteq> 0)"
| "py_bool (JStr s) = (s \<noteq> [])"
| "py_bool (JList xs) = (xs \<noteq> [])"
| "py_bool (JDict d) = (d \<noteq> [])"

section \<open>Configuration, outbound calls and effects\<close>

text \<open>The module constants (lines 5 and 6).\<close>

definition SUPPORTED_TYPES :: "json list" where
  "SUPPORTED_TYPES = [JStr ''image/jpeg'', JStr ''image/jpg'', JStr ''image/png'']"

definition MAX_SIZE :: int where
  "MAX_SIZE = 5242880"

text \<open>The values read from the environment when the module is loaded (lines 8 to 11).\<close>

record config =
  VERIFICATION_TOKEN :: string
  ACCESS_TOKEN :: string
  MIN_CONFIDENCE :: rat

text \<open>
  A \<^verbatim>\<open>urllib.request.Request\<close>: the URL, the form fields of the body (the tuple the source
  passes to \<^verbatim>\<open>urlencode\<close>, \<open>None\<close> for a GET) and the headers.
\<close>

record request =
  req_url :: json
  req_data :: "dict option"
  req_headers :: "(string \<times> string) list"

text \<open>
  The libraries and the network behind them:
  \<^item> \<open>Request_raises url\<close>: what the constructor \<^verbatim>\<open>urllib.request.Request(url, ...)\<close> raises,
    if anything. It applies \<^verbatim>\<open>str\<close> to the URL and raises \<^verbatim>\<open>ValueError\<close> for a text without a
    URL type (\<^verbatim>\<open>'not-a-url'\<close>, \<^verbatim>\<open>''\<close>, \<^verbatim>\<open>None\<close>, \<^verbatim>\<open>123\<close>) or with a malformed host; no
    request is built then and \<^verbatim>\<open>urlopen\<close> is not called.
  \<^item> \<open>urlopen request\<close>: what \<^verbatim>\<open>urlopen(request)\<close> (and \<^verbatim>\<open>.read()\<close> for the download) answers,
    an exception or the bytes of the body.
  \<^item> \<open>detect_moderation_labels\<close>: what \<^verbatim>\<open>rekognition.detect_moderation_labels\<close> answers, an
    exception or the dict that \<^verbatim>\<open>response['ModerationLabels']\<close> subscripts.
\<close>

record world =
  Request_raises :: "json \<Rightarrow> exn option"
  urlopen :: "request \<Rightarrow> exn + bytes"
  detect_moderation_labels :: "bytes \<Rightarrow> rat \<Rightarrow> exn + dict"

text \<open>What a run does besides returning: the lines it prints and the calls it makes.\<close>

datatype effect =
    Print string
  | PrintExn exn
  | Urlopen request
  | DetectModerationLabels bytes rat

fun is_call :: "effect \<Rightarrow> bool" where
  "is_call (Urlopen r) = True"
| "is_call (DetectModerationLabels b c) = True"
| "is_call (Print s) = False"
| "is_call (PrintExn e) = False"

definition calls :: "effect list \<Rightarrow> effect list" where
  "calls t = filter is_call t"

text \<open>A run returns a value or raises, and leaves the effects it had, in order.\<close>

type_synonym 'a run = "(exn + 'a) \<times> effect list"

definition ret :: "'a \<Rightarrow> 'a run" where
  "ret x = (Inr x, [])"

definition lift :: "exn + 'a \<Rightarrow> 'a run" where
  "lift r = (r, [])"

definition print :: "string \<Rightarrow> unit run" where
  "print s = (Inr (), [Print s])"

definition and_then :: "'a run \<Rightarrow> ('a \<Rightarrow> 'b run) \<Rightarrow> 'b run" where
  "and_then m f =
     (case m of
        (Inl e, t) \<Rightarrow> (Inl e, t)
      | (Inr x, t) \<Rightarrow> (case f x of (r, t') \<Rightarrow> (r, t @ t')))"

section \<open>The functions of moderate\_image.py\<close>

text \<open>Lines 47 to 62.\<close>

definition verify_token :: "config \<Rightarrow> dict \<Rightarrow> bool run" where
  "verify_token cfg event =
     and_then (lift (dict_item event ''token'')) (\<lambda>token.
       if token \<noteq> JStr (VERIFICATION_TOKEN cfg)
       then and_then (print ''Presented with invalid token- ignoring message...'')
              (\<lambda>_. ret False)
       else ret True)"

text \<open>Lines 65 to 95: all three fields are read before the first of them is checked.\<close>

definition validate_event :: "dict \<Rightarrow> bool run" where
  "validate_event event =
     and_then (lift (dict_item event ''event'')) (\<lambda>event_details.
     and_then (lift (py_get event_details ''subtype'')) (\<lambda>file_subtype.
       if file_subtype \<noteq> JStr ''file_share''
       then and_then (print ''Not a file_shared event- ignoring event...'') (\<lambda>_. ret False)
       else
     and_then (lift (py_getitem event_details ''file'')) (\<lambda>file_details.
     and_then (lift (py_getitem file_details ''mimetype'')) (\<lambda>mime_type.
     and_then (lift (py_getitem file_details ''size'')) (\<lambda>file_size.
       if mime_type \<notin> set SUPPORTED_TYPES
       then and_then (print ''File is not an image- ignoring event...'') (\<lambda>_. ret False)
       else
     and_then (lift (py_gt file_size MAX_SIZE)) (\<lambda>too_large.
       if too_large
       then and_then
              (print ''Image is larger than 5MB and cannot be processed- ignoring event...'')
              (\<lambda>_. ret False)
       else ret True))))))"

text \<open>Lines 98 to 111: line 110 builds the request of the URL the event carries, which the
  constructor may refuse; only then line 111 opens it.\<close>

definition download_request :: "config \<Rightarrow> json \<Rightarrow> request" where
  "download_request cfg url =
     \<lparr>req_url = url, req_data = None,
      req_headers = [(''Authorization'', ''Bearer '' @ ACCESS_TOKEN cfg)]\<rparr>"

definition download_image :: "config \<Rightarrow> world \<Rightarrow> json \<Rightarrow> bytes run" where
  "download_image cfg w url =
     (case Request_raises w url of
        Some e \<Rightarrow> (Inl e, [])
      | None \<Rightarrow>
          (urlopen w (download_request cfg url), [Urlopen (download_request cfg url)]))"

text \<open>Lines 114 to 140: the \<^verbatim>\<open>except\<close> branch prints the exception and a line, and raises
  the exception again.\<close>

definition detect_explicit_content :: "config \<Rightarrow> world \<Rightarrow> bytes \<Rightarrow> bool run" where
  "detect_explicit_content cfg w image_bytes =
     (case detect_moderation_labels w image_bytes (MIN_CONFIDENCE cfg) of
        Inl e \<Rightarrow>
          (Inl e,
           [DetectModerationLabels image_bytes (MIN_CONFIDENCE cfg),
            PrintExn e, Print ''Unable to detect labels for image.''])
      | Inr response \<Rightarrow>
          and_then (Inr response, [DetectModerationLabels image_bytes (MIN_CONFIDENCE cfg)])
            (\<lambda>response.
          and_then (lift (dict_item response ''ModerationLabels'')) (\<lambda>labels.
            if \<not> py_bool labels then ret False else ret True)))"

text \<open>Lines 143 to 162. The URL of the request is the constant of line 152, which the
  constructor accepts.\<close>

definition delete_request :: "config \<Rightarrow> json \<Rightarrow> request" where
  "delete_request cfg file_id =
     \<lparr>req_url = JStr ''https://slack.com/api/files.delete'',
      req_data = Some [(''token'', JStr (ACCESS_TOKEN cfg)), (''file'', file_id)],
      req_headers = [(''Content-Type'', ''application/x-www-form-urlencoded'')]\<rparr>"

definition delete_file :: "config \<Rightarrow> world \<Rightarrow> json \<Rightarrow> unit run" where
  "delete_file cfg w file_id =
     and_then (urlopen w (delete_request cfg file_id), [Urlopen (delete_request cfg file_id)])
       (\<lambda>_. ret ())"

text \<open>Lines 165 to 185. The URL of the request is the constant of line 174, which the
  constructor accepts.\<close>

definition post_request :: "config \<Rightarrow> json \<Rightarrow> request" where
  "post_request cfg channel =
     \<lparr>req_url = JStr ''https://slack.com/api/chat.postMessage'',
      req_data = Some [(''token'', JStr (ACCESS_TOKEN cfg)), (''channel'', channel),
        (''text'', JStr ''File removed due to displaying explicit or suggestive adult content.'')],
      req_headers = [(''Content-Type'', ''application/x-www-form-urlencoded'')]\<rparr>"

definition post_message :: "config \<Rightarrow> world \<Rightarrow> json \<Rightarrow> unit run" where
  "post_message cfg w channel =
     and_then (urlopen w (post_request cfg channel), [Urlopen (post_request cfg channel)])
       (\<lambda>_. ret ())"

text \<open>Lines 16 to 44. The handler returns \<^verbatim>\<open>None\<close> (\<open>JNull\<close>) or the challenge dict; its
  second argument, \<^verbatim>\<open>context\<close>, is never read.\<close>

definition lambda_handler :: "config \<Rightarrow> world \<Rightarrow> dict \<Rightarrow> json run" where
  "lambda_handler cfg w event =
     and_then (print ''Validating message...'') (\<lambda>_.
     and_then (verify_token cfg event) (\<lambda>token_ok.
       if \<not> token_ok then ret JNull
       else if dict_get event ''challenge'' \<noteq> JNull
       then
         and_then
           (print ''Presented with URL verification challenge- responding accordingly...'')
           (\<lambda>_.
         and_then (lift (dict_item event ''challenge'')) (\<lambda>challenge.
           ret (JDict [(''challenge'', challenge)])))
       else
     and_then (validate_event event) (\<lambda>valid.
       if \<not> valid then ret JNull
       else
     and_then (lift (dict_item event ''event'')) (\<lambda>event_details.
     and_then (lift (py_getitem event_details ''file'')) (\<lambda>file_details.
     and_then (lift (py_getitem event_details ''channel'')) (\<lambda>channel.
     and_then (lift (py_getitem file_details ''url_private'')) (\<lambda>url.
     and_then (lift (py_getitem file_details ''id'')) (\<lambda>file_id.
     and_then (print ''Downloading image...'') (\<lambda>_.
     and_then (download_image cfg w url) (\<lambda>image_bytes.
     and_then (print ''Checking image for explicit content...'') (\<lambda>_.
     and_then (detect_explicit_content cfg w image_bytes) (\<lambda>is_explicit.
       if is_explicit
       then
         and_then
           (print ''Image displays explicit content- deleting from Slack Shared Files...'')
           (\<lambda>_.
         and_then (delete_file cfg w file_id) (\<lambda>_.
         and_then
           (print ''Posting message to channel to notify users of file deletion...'')
           (\<lambda>_.
         and_then (post_message cfg w channel) (\<lambda>_. ret JNull))))
       else ret JNull))))))))))))"

section \<open>Reading a run\<close>

text \<open>
  The two calls to Slack's Web API are told from the download by their URL and by carrying a
  form body (\<^verbatim>\<open>delete_file\<close> and \<^verbatim>\<open>post_message\<close> pass \<^verbatim>\<open>data\<close>, \<^verbatim>\<open>download_image\<close>
  does not).
\<close>

fun is_delete_call :: "effect \<Rightarrow> bool" where
  "is_delete_call (Urlopen r) =
     (req_url r = JStr ''https://slack.com/api/files.delete'' \<and> req_data r \<noteq> None)"
| "is_delete_call _ = False"

fun is_post_call :: "effect \<Rightarrow> bool" where
  "is_post_call (Urlopen r) =
     (req_url r = JStr ''https://slack.com/api/chat.postMessage'' \<and> req_data r \<noteq> None)"
| "is_post_call _ = False"

section \<open>Sample configuration, worlds and events\<close>

definition sample_config :: config where
  "sample_config =
     \<lparr>VERIFICATION_TOKEN = ''secret'', ACCESS_TOKEN = ''xoxb'', MIN_CONFIDENCE = 80\<rparr>"

definition sample_label :: json where
  "sample_label =
     JDict [(''Confidence'', JFloat (199 / 2)), (''Name'', JStr ''Explicit Nudity''),
       (''ParentName'', JStr [])]"

text \<open>
  The constructor in the sample worlds. On the URLs of the sample events it answers as
  Python's does: it accepts \<^verbatim>\<open>https://files.slack.com/...\<close> and refuses \<^verbatim>\<open>not-a-url\<close>. Beyond
  them it is a simplification that accepts exactly the texts starting with \<^verbatim>\<open>https://\<close>.
\<close>

definition sample_Request_raises :: "json \<Rightarrow> exn option" where
  "sample_Request_raises url =
     (case url of
        JStr s \<Rightarrow> if take 8 s = ''https://'' then None else Some ValueError
      | _ \<Rightarrow> Some ValueError)"

text \<open>Every call answers; the image carries no moderation label.\<close>

definition clean_world :: world where
  "clean_world =
     \<lparr>Request_raises = sample_Request_raises,
      urlopen = (\<lambda>r. Inr ''image-bytes''),
      detect_moderation_labels = (\<lambda>b c. Inr [(''ModerationLabels'', JList [])])\<rparr>"

text \<open>Every call answers; the image carries one moderation label.\<close>

definition explicit_world :: world where
  "explicit_world =
     \<lparr>Request_raises = sample_Request_raises,
      urlopen = (\<lambda>r. Inr ''image-bytes''),
      detect_moderation_labels = (\<lambda>b c. Inr [(''ModerationLabels'', JList [sample_label])])\<rparr>"


text \<open>The download answers; the moderation call raises.\<close>

definition moderation_failing_world :: world where
  "moderation_failing_world =
     \<lparr>Request_raises = sample_Request_raises,
      urlopen = (\<lambda>r. Inr ''image-bytes''),
      detect_moderation_labels = (\<lambda>b c. Inl (Raised ''InvalidImageFormatException''))\<rparr>"

text \<open>A Slack \<^verbatim>\<open>file_share\<close> event with the given token, mimetype and size.\<close>

definition file_share_event :: "json \<Rightarrow> json \<Rightarrow> json \<Rightarrow> dict" where
  "file_share_event token mimetype file_size =
     [(''token'', token),
      (''event'', JDict
         [(''subtype'', JStr ''file_share''),
          (''channel'', JStr ''C024BE91L''),
          (''file'', JDict
             [(''id'', JStr ''F0S43PZDF''),
              (''mimetype'', mimetype),
              (''size'', file_size),
              (''url_private'', JStr ''https://files.slack.com/files-pri/T0-F0S43PZDF/cat.png'')])])]"

section \<open>Sequencing\<close>

lemma and_then_Inl [simp]: "and_then (Inl e, t) f = (Inl e, t)"
  by (simp add: and_then_def)

lemma and_then_Inr [simp]: "and_then (Inr x, t) f = (fst (f x), t @ snd (f x))"
  by (simp add: and_then_def split: prod.splits)

lemma and_then_ret [simp]: "and_then (ret x) f = f x"
  by (simp add: ret_def)

lemma and_then_print [simp]: "and_then (print s) f = (fst (f ()), Print s # snd (f ()))"
  by (simp add: print_def)

lemma and_then_lift_Inl [simp]: "and_then (lift (Inl e)) f = (Inl e, [])"
  by (simp add: lift_def)

lemma and_then_lift_Inr [simp]: "and_then (lift (Inr x)) f = f x"
  by (simp add: lift_def)

lemma fst_ret [simp]: "fst (ret x) = Inr x"
  by (simp add: ret_def)

lemma snd_ret [simp]: "snd (ret x) = []"
  by (simp add: ret_def)

lemma and_then_lift:
  "and_then (lift r) f = (case r of Inl e \<Rightarrow> (Inl e, []) | Inr x \<Rightarrow> f x)"
  by (cases r) simp_all

lemma and_then_cases:
  "and_then m f =
     (case fst m of Inl e \<Rightarrow> (Inl e, snd m) | Inr x \<Rightarrow> (fst (f x), snd m @ snd (f x)))"
  by (cases m; cases "fst m") auto

section \<open>The gates of the handler\<close>

lemma verify_token_missing:
  "map_of event ''token'' = None \<Longrightarrow> verify_token cfg event = (Inl (KeyError ''token''), [])"
  by (simp add: verify_token_def dict_item_def)

lemma verify_token_present:
  "map_of event ''token'' = Some token \<Longrightarrow>
   verify_token cfg event =
     (if token \<noteq> JStr (VERIFICATION_TOKEN cfg)
      then (Inr False, [Print ''Presented with invalid token- ignoring message...''])
      else (Inr True, []))"
  by (simp add: verify_token_def dict_item_def ret_def)

lemma handler_invalid_token:
  assumes "map_of event ''token'' = Some token" and "token \<noteq> JStr (VERIFICATION_TOKEN cfg)"
  shows "lambda_handler cfg w event =
     (Inr JNull, [Print ''Validating message...'',
                  Print ''Presented with invalid token- ignoring message...''])"
  using assms by (simp add: lambda_handler_def verify_token_present)

lemma handler_missing_token:
  assumes "map_of event ''token'' = None"
  shows "lambda_handler cfg w event =
     (Inl (KeyError ''token''), [Print ''Validating message...''])"
  using assms by (simp add: lambda_handler_def verify_token_missing)

lemma handler_challenge:
  assumes "map_of event ''token'' = Some (JStr (VERIFICATION_TOKEN cfg))"
    and "map_of event ''challenge'' = Some c" and "c \<noteq> JNull"
  shows "lambda_handler cfg w event =
     (Inr (JDict [(''challenge'', c)]),
      [Print ''Validating message...'',
       Print ''Presented with URL verification challenge- responding accordingly...''])"
  using assms by (simp add: lambda_handler_def verify_token_present dict_get_def dict_item_def)

lemma validate_event_no_calls: "calls (snd (validate_event event)) = []"
  by (simp add: validate_event_def calls_def and_then_lift split: sum.splits)

lemma validate_event_True_or:
  "validate_event event = (Inr True, []) \<or> fst (validate_event event) \<noteq> Inr True"
  by (simp add: validate_event_def and_then_lift ret_def split: sum.splits)

lemma validate_event_True_shape:
  assumes "fst (validate_event event) = Inr True"
  shows "\<exists>ed fd. map_of event ''event'' = Some (JDict ed) \<and> map_of ed ''file'' = Some (JDict fd)"
proof -
  from assms obtain ev where ev: "map_of event ''event'' = Some ev"
    by (cases "map_of event ''event''") (simp_all add: validate_event_def dict_item_def)
  from assms ev obtain ed where ed: "ev = JDict ed"
    by (cases ev) (simp_all add: validate_event_def dict_item_def)
  from assms ev ed obtain f where f: "map_of ed ''file'' = Some f"
    by (cases "map_of ed ''file''")
      (simp_all add: validate_event_def dict_item_def split: if_splits)
  from assms ev ed f obtain fd where "f = JDict fd"
    by (cases f) (simp_all add: validate_event_def dict_item_def split: if_splits)
  with ev ed f show ?thesis by simp
qed

lemma validate_event_accepts:
  assumes "map_of event ''event'' = Some (JDict ed)"
    and "dict_get ed ''subtype'' = JStr ''file_share''"
    and "map_of ed ''file'' = Some (JDict fd)"
    and "map_of fd ''mimetype'' = Some m" and "m \<in> set SUPPORTED_TYPES"
    and "map_of fd ''size'' = Some s"
  shows "validate_event event =
     (case py_gt s MAX_SIZE of
        Inl e \<Rightarrow> (Inl e, [])
      | Inr too_large \<Rightarrow>
          if too_large
          then (Inr False,
                [Print ''Image is larger than 5MB and cannot be processed- ignoring event...''])
          else (Inr True, []))"
  using assms by (simp add: validate_event_def dict_item_def and_then_lift ret_def split: sum.splits)

text \<open>The handler behind its gates: lines 36 to 44 with the fields of the event bound.\<close>

lemma handler_past_gates:
  assumes "map_of event ''token'' = Some (JStr (VERIFICATION_TOKEN cfg))"
    and "dict_get event ''challenge'' = JNull"
    and "validate_event event = (Inr True, [])"
    and "map_of event ''event'' = Some (JDict ed)"
    and "map_of ed ''file'' = Some (JDict fd)"
    and "map_of ed ''channel'' = Some channel"
    and "map_of fd ''url_private'' = Some url"
    and "map_of fd ''id'' = Some file_id"
  shows "lambda_handler cfg w event =
     and_then (print ''Validating message...'') (\<lambda>_.
     and_then (print ''Downloading image...'') (\<lambda>_.
     and_then (download_image cfg w url) (\<lambda>image_bytes.
     and_then (print ''Checking image for explicit content...'') (\<lambda>_.
     and_then (detect_explicit_content cfg w image_bytes) (\<lambda>is_explicit.
       if is_explicit
       then
         and_then
           (print ''Image displays explicit content- deleting from Slack Shared Files...'')
           (\<lambda>_.
         and_then (delete_file cfg w file_id) (\<lambda>_.
         and_then
           (print ''Posting message to channel to notify users of file deletion...'')
           (\<lambda>_.
         and_then (post_message cfg w channel) (\<lambda>_. ret JNull))))
       else ret JNull)))))"
  using assms unfolding lambda_handler_def
  by (simp add: verify_token_present dict_item_def)

lemma handler_not_valid:
  assumes "map_of event ''token'' = Some (JStr (VERIFICATION_TOKEN cfg))"
    and "dict_get event ''challenge'' = JNull"
    and "fst (validate_event event) \<noteq> Inr True"
  shows "lambda_handler cfg w event =
     (case fst (validate_event event) of Inl e \<Rightarrow> Inl e | Inr _ \<Rightarrow> Inr JNull,
      Print ''Validating message...'' # snd (validate_event event))"
  using assms unfolding lambda_handler_def
  by (cases "fst (validate_event event)")
    (simp_all add: verify_token_present and_then_cases [of "validate_event event"])

lemma handler_calls_gates:
  assumes "calls (snd (lambda_handler cfg w event)) \<noteq> []"
  shows "\<exists>ed fd channel url file_id.
     map_of event ''token'' = Some (JStr (VERIFICATION_TOKEN cfg)) \<and>
     dict_get event ''challenge'' = JNull \<and>
     validate_event event = (Inr True, []) \<and>
     map_of event ''event'' = Some (JDict ed) \<and>
     map_of ed ''file'' = Some (JDict fd) \<and>
     map_of ed ''channel'' = Some channel \<and>
     map_of fd ''url_private'' = Some url \<and>
     map_of fd ''id'' = Some file_id"
proof -
  obtain token where token: "map_of event ''token'' = Some token"
    using assms by (cases "map_of event ''token''")
      (simp_all add: handler_missing_token calls_def)
  have tok: "token = JStr (VERIFICATION_TOKEN cfg)"
    using assms token by (cases "token = JStr (VERIFICATION_TOKEN cfg)")
      (simp_all add: handler_invalid_token calls_def)
  have chal: "dict_get event ''challenge'' = JNull"
  proof (rule ccontr)
    assume "dict_get event ''challenge'' \<noteq> JNull"
    then obtain c where "map_of event ''challenge'' = Some c" "c \<noteq> JNull"
      by (cases "map_of event ''challenge''") (simp_all add: dict_get_def)
    with token tok assms show False
      by (simp add: handler_challenge calls_def)
  qed
  have valid: "fst (validate_event event) = Inr True"
  proof (rule ccontr)
    assume "fst (validate_event event) \<noteq> Inr True"
    with token tok chal have "calls (snd (lambda_handler cfg w event)) = []"
      using validate_event_no_calls [of event]
      by (simp add: handler_not_valid calls_def)
    with assms show False by simp
  qed
  then have vrun: "validate_event event = (Inr True, [])"
    using validate_event_True_or [of event] by simp
  from valid obtain ed fd where
    ed: "map_of event ''event'' = Some (JDict ed)" and fd: "map_of ed ''file'' = Some (JDict fd)"
    using validate_event_True_shape by blast
  have rest: "map_of ed ''channel'' \<noteq> None \<and> map_of fd ''url_private'' \<noteq> None \<and>
      map_of fd ''id'' \<noteq> None"
  proof (rule ccontr)
    assume "\<not> ?thesis"
    then have "calls (snd (lambda_handler cfg w event)) = []"
      unfolding lambda_handler_def using token tok chal vrun ed fd
      by (auto simp add: verify_token_present dict_item_def calls_def split: option.splits)
    with assms show False by simp
  qed
  with token tok chal vrun ed fd show ?thesis by auto
qed

lemma detect_explicit_content_raises:
  assumes "detect_moderation_labels w image_bytes (MIN_CONFIDENCE cfg) = Inl e"
  shows "detect_explicit_content cfg w image_bytes =
     (Inl e, [DetectModerationLabels image_bytes (MIN_CONFIDENCE cfg), PrintExn e,
              Print ''Unable to detect labels for image.''])"
  using assms by (simp add: detect_explicit_content_def)

lemma detect_explicit_content_returns:
  assumes "detect_moderation_labels w image_bytes (MIN_CONFIDENCE cfg) = Inr response"
  shows "detect_explicit_content cfg w image_bytes =
     (case map_of response ''ModerationLabels'' of
        None \<Rightarrow> Inl (KeyError ''ModerationLabels'')
      | Some labels \<Rightarrow> Inr (py_bool labels),
      [DetectModerationLabels image_bytes (MIN_CONFIDENCE cfg)])"
  using assms
  by (simp add: detect_explicit_content_def dict_item_def and_then_lift ret_def
      split: option.splits)

lemma and_then_pair:
  "and_then (r, t) f =
     (case r of Inl e \<Rightarrow> (Inl e, t) | Inr x \<Rightarrow> (fst (f x), t @ snd (f x)))"
  by (cases r) simp_all

lemma delete_file_run:
  "delete_file cfg w file_id =
     (case urlopen w (delete_request cfg file_id) of Inl e \<Rightarrow> Inl e | Inr _ \<Rightarrow> Inr (),
      [Urlopen (delete_request cfg file_id)])"
  by (simp add: delete_file_def and_then_pair split: sum.splits)

lemma post_message_run:
  "post_message cfg w channel =
     (case urlopen w (post_request cfg channel) of Inl e \<Rightarrow> Inl e | Inr _ \<Rightarrow> Inr (),
      [Urlopen (post_request cfg channel)])"
  by (simp add: post_message_def and_then_pair split: sum.splits)

lemma calls_nonempty:
  assumes "x \<in> set t" and "is_call x"
  shows "calls t \<noteq> []"
proof -
  from assms have "x \<in> set (filter is_call t)" by simp
  then show ?thesis unfolding calls_def by (cases "filter is_call t") simp_all
qed

lemma handler_moderation_call:
  assumes "DetectModerationLabels image_bytes c \<in> set (snd (lambda_handler cfg w event))"
  shows "\<exists>ed fd channel url file_id.
     map_of event ''token'' = Some (JStr (VERIFICATION_TOKEN cfg)) \<and>
     dict_get event ''challenge'' = JNull \<and>
     validate_event event = (Inr True, []) \<and>
     map_of event ''event'' = Some (JDict ed) \<and>
     map_of ed ''file'' = Some (JDict fd) \<and>
     map_of ed ''channel'' = Some channel \<and>
     map_of fd ''url_private'' = Some url \<and>
     map_of fd ''id'' = Some file_id \<and>
     Request_raises w url = None \<and>
     urlopen w (download_request cfg url) = Inr image_bytes \<and>
     c = MIN_CONFIDENCE cfg"
proof -
  from assms have "calls (snd (lambda_handler cfg w event)) \<noteq> []"
    by (rule calls_nonempty) simp
  then obtain ed fd channel url file_id where
    gates: "map_of event ''token'' = Some (JStr (VERIFICATION_TOKEN cfg))"
      "dict_get event ''challenge'' = JNull"
      "validate_event event = (Inr True, [])"
      "map_of event ''event'' = Some (JDict ed)"
      "map_of ed ''file'' = Some (JDict fd)"
      "map_of ed ''channel'' = Some channel"
      "map_of fd ''url_private'' = Some url"
      "map_of fd ''id'' = Some file_id"
    using handler_calls_gates by blast
  note run = handler_past_gates [OF gates, of w]
  have built: "Request_raises w url = None"
  proof (cases "Request_raises w url")
    case (Some e)
    with assms show ?thesis
      unfolding run by (simp add: download_image_def)
  qed simp
  have "urlopen w (download_request cfg url) = Inr image_bytes \<and> c = MIN_CONFIDENCE cfg"
  proof (cases "urlopen w (download_request cfg url)")
    case (Inl e)
    with assms built show ?thesis
      unfolding run by (simp add: download_image_def)
  next
    case (Inr b)
    show ?thesis
    proof (cases "detect_moderation_labels w b (MIN_CONFIDENCE cfg)")
      case (Inl e)
      with assms Inr built show ?thesis
        unfolding run by (simp add: download_image_def detect_explicit_content_raises)
    next
      case (Inr response)
      with assms built \<open>urlopen w (download_request cfg url) = Inr b\<close> show ?thesis
        unfolding run
        by (auto simp add: download_image_def detect_explicit_content_returns
            delete_file_run post_message_run and_then_pair
            split: option.splits if_splits sum.splits)
    qed
  qed
  with gates built show ?thesis by blast
qed


text \<open>The definitions a run on a concrete event unfolds.\<close>

lemmas run_defs =
  lambda_handler_def verify_token_def validate_event_def download_image_def
  sample_Request_raises_def
  detect_explicit_content_def delete_file_def post_message_def
  dict_item_def dict_get_def ret_def SUPPORTED_TYPES_def MAX_SIZE_def
  file_share_event_def sample_config_def

section \<open>The token check and the handshake\<close>

text \<open>
  Claim C3. When the event's \<^verbatim>\<open>token\<close> differs from the configured verification token, the
  handler returns \<^verbatim>\<open>None\<close> and makes no outbound call: no download, no moderation
  call, no delete, no post.
\<close>

theorem invalid_token_ignored:
  assumes "map_of event ''token'' = Some token"
    and "token \<noteq> JStr (VERIFICATION_TOKEN cfg)"
  shows "fst (lambda_handler cfg w event) = Inr JNull \<and>
         calls (snd (lambda_handler cfg w event)) = []"
proof -
  have "lambda_handler cfg w event =
      (Inr JNull, [Print ''Validating message...'',
                   Print ''Presented with invalid token- ignoring message...''])"
    using assms by (rule handler_invalid_token)
  then show ?thesis by (simp add: calls_def)
qed

theorem invalid_token_ignored_witness:
  "fst (lambda_handler sample_config explicit_world
          (file_share_event (JStr ''forged'') (JStr ''image/png'') (JInt 1024))) = Inr JNull \<and>
   calls (snd (lambda_handler sample_config explicit_world
          (file_share_event (JStr ''forged'') (JStr ''image/png'') (JInt 1024)))) = []"
  by (rule invalid_token_ignored [where token = "JStr ''forged''"])
    (simp_all add: file_share_event_def sample_config_def)

text \<open>
  Claim C8. An event without a \<^verbatim>\<open>token\<close> key makes \<^verbatim>\<open>verify_token\<close> raise
  \<^verbatim>\<open>KeyError('token')\<close>, which leaves the handler uncaught before any outbound call.
\<close>

theorem missing_token_key_error:
  assumes "map_of event ''token'' = None"
  shows "fst (lambda_handler cfg w event) = Inl (KeyError ''token'') \<and>
         calls (snd (lambda_handler cfg w event)) = []"
  using handler_missing_token [OF assms, of cfg w] by (simp add: calls_def)

theorem missing_token_key_error_witness:
  "fst (lambda_handler sample_config explicit_world [(''challenge'', JStr ''abc123'')])
     = Inl (KeyError ''token'') \<and>
   calls (snd (lambda_handler sample_config explicit_world [(''challenge'', JStr ''abc123'')]))
     = []"
  by (rule missing_token_key_error) simp

text \<open>
  Claim C10. The handshake comes after the token check: an event that carries a
  \<^verbatim>\<open>challenge\<close> but whose token does not match gets \<^verbatim>\<open>None\<close>, not the echo of the
  challenge, and no outbound call is made.
\<close>

theorem challenge_not_echoed_on_invalid_token:
  assumes "map_of event ''token'' = Some token"
    and "token \<noteq> JStr (VERIFICATION_TOKEN cfg)"
    and "map_of event ''challenge'' = Some c"
  shows "fst (lambda_handler cfg w event) = Inr JNull \<and>
         fst (lambda_handler cfg w event) \<noteq> Inr (JDict [(''challenge'', c)]) \<and>
         calls (snd (lambda_handler cfg w event)) = []"
  using handler_invalid_token [OF assms(1,2), of w] by (simp add: calls_def)

theorem challenge_not_echoed_on_invalid_token_witness:
  "fst (lambda_handler sample_config explicit_world
          [(''token'', JStr ''forged''), (''challenge'', JStr ''abc123'')]) = Inr JNull \<and>
   fst (lambda_handler sample_config explicit_world
          [(''token'', JStr ''forged''), (''challenge'', JStr ''abc123'')])
     \<noteq> Inr (JDict [(''challenge'', JStr ''abc123'')]) \<and>
   calls (snd (lambda_handler sample_config explicit_world
          [(''token'', JStr ''forged''), (''challenge'', JStr ''abc123'')])) = []"
  by (rule challenge_not_echoed_on_invalid_token [where token = "JStr ''forged''"])
    (simp_all add: sample_config_def)

text \<open>
  Claim C4, as stated, for every event that contains a \<^verbatim>\<open>challenge\<close> field: it fails on an
  event whose token does not match (line 18 returns before the handshake of line 21), and on
  an event whose \<^verbatim>\<open>challenge\<close> is \<^verbatim>\<open>null\<close> (line 21 tests \<^verbatim>\<open>is not None\<close>, so the event
  goes on to \<^verbatim>\<open>validate_event\<close>).
\<close>

theorem challenge_for_every_event_counterexample:
  "fst (lambda_handler sample_config clean_world
          [(''token'', JStr ''forged''), (''challenge'', JStr ''abc123'')]) = Inr JNull \<and>
   fst (lambda_handler sample_config clean_world
          [(''token'', JStr ''secret''), (''challenge'', JNull)]) = Inl (KeyError ''event'')"
  by (simp add: lambda_handler_def verify_token_def validate_event_def dict_item_def
      dict_get_def sample_config_def)

text \<open>
  Claim C4, amended. For every event whose token matches and whose \<^verbatim>\<open>challenge\<close> field is
  not \<^verbatim>\<open>null\<close>, the handler returns exactly \<^verbatim>\<open>{'challenge': <value>}\<close>, makes no outbound
  call and does nothing but print its two log lines.
\<close>

theorem challenge_echoed_after_token_check:
  assumes "map_of event ''token'' = Some (JStr (VERIFICATION_TOKEN cfg))"
    and "map_of event ''challenge'' = Some c"
    and "c \<noteq> JNull"
  shows "fst (lambda_handler cfg w event) = Inr (JDict [(''challenge'', c)]) \<and>
         calls (snd (lambda_handler cfg w event)) = [] \<and>
         snd (lambda_handler cfg w event) =
           [Print ''Validating message...'',
            Print ''Presented with URL verification challenge- responding accordingly...'']"
  using handler_challenge [OF assms, of w] by (simp add: calls_def)

theorem challenge_echoed_after_token_check_witness:
  "fst (lambda_handler sample_config explicit_world
          [(''token'', JStr ''secret''), (''challenge'', JStr ''abc123'')])
     = Inr (JDict [(''challenge'', JStr ''abc123'')]) \<and>
   calls (snd (lambda_handler sample_config explicit_world
          [(''token'', JStr ''secret''), (''challenge'', JStr ''abc123'')])) = [] \<and>
   snd (lambda_handler sample_config explicit_world
          [(''token'', JStr ''secret''), (''challenge'', JStr ''abc123'')]) =
           [Print ''Validating message...'',
            Print ''Presented with URL verification challenge- responding accordingly...'']"
  by (rule challenge_echoed_after_token_check) (simp_all add: sample_config_def)

section \<open>Moderation\<close>

text \<open>
  Claim C5. In every invocation in which the moderation call is made and raises, the
  exception is printed, followed by the line \<^verbatim>\<open>Unable to detect labels for image.\<close>, and
  raised again: it leaves \<^verbatim>\<open>detect_explicit_content\<close> and the handler uncaught, no verdict
  is computed in its place, and neither the file-deletion call nor the message-post call
  is made.
\<close>

theorem moderation_failure_propagates:
  assumes "DetectModerationLabels image_bytes c \<in> set (snd (lambda_handler cfg w event))"
    and "detect_moderation_labels w image_bytes c = Inl e"
  shows "fst (lambda_handler cfg w event) = Inl e \<and>
         (\<exists>url. snd (lambda_handler cfg w event) =
            [Print ''Validating message...'', Print ''Downloading image...'',
             Urlopen (download_request cfg url),
             Print ''Checking image for explicit content...'',
             DetectModerationLabels image_bytes c, PrintExn e,
             Print ''Unable to detect labels for image.'']) \<and>
         filter is_delete_call (snd (lambda_handler cfg w event)) = [] \<and>
         filter is_post_call (snd (lambda_handler cfg w event)) = [] \<and>
         fst (detect_explicit_content cfg w image_bytes) = Inl e"
proof -
  from handler_moderation_call [OF assms(1)] obtain ed fd channel url file_id where
    gates: "map_of event ''token'' = Some (JStr (VERIFICATION_TOKEN cfg))"
      "dict_get event ''challenge'' = JNull"
      "validate_event event = (Inr True, [])"
      "map_of event ''event'' = Some (JDict ed)"
      "map_of ed ''file'' = Some (JDict fd)"
      "map_of ed ''channel'' = Some channel"
      "map_of fd ''url_private'' = Some url"
      "map_of fd ''id'' = Some file_id"
    and built: "Request_raises w url = None"
    and dl: "urlopen w (download_request cfg url) = Inr image_bytes"
    and c: "c = MIN_CONFIDENCE cfg"
    by blast
  from assms(2) c have det: "detect_explicit_content cfg w image_bytes =
      (Inl e, [DetectModerationLabels image_bytes c, PrintExn e,
               Print ''Unable to detect labels for image.''])"
    by (simp add: detect_explicit_content_raises)
  have run: "lambda_handler cfg w event =
      (Inl e, [Print ''Validating message...'', Print ''Downloading image...'',
               Urlopen (download_request cfg url),
               Print ''Checking image for explicit content...'',
               DetectModerationLabels image_bytes c, PrintExn e,
               Print ''Unable to detect labels for image.''])"
    unfolding handler_past_gates [OF gates] by (simp add: download_image_def built dl det)
  have "filter is_delete_call (snd (lambda_handler cfg w event)) = []"
    unfolding run by (simp add: download_request_def)
  moreover have "filter is_post_call (snd (lambda_handler cfg w event)) = []"
    unfolding run by (simp add: download_request_def)
  moreover have "\<exists>url. snd (lambda_handler cfg w event) =
            [Print ''Validating message...'', Print ''Downloading image...'',
             Urlopen (download_request cfg url),
             Print ''Checking image for explicit content...'',
             DetectModerationLabels image_bytes c, PrintExn e,
             Print ''Unable to detect labels for image.'']"
    by (rule exI [of _ url]) (simp add: run)
  ultimately show ?thesis using run det by simp
qed

lemma sample_moderation_failure_run:
  "lambda_handler sample_config moderation_failing_world
     (file_share_event (JStr ''secret'') (JStr ''image/png'') (JInt 5242880)) =
   (Inl (Raised ''InvalidImageFormatException''),
    [Print ''Validating message...'', Print ''Downloading image...'',
     Urlopen (download_request sample_config
       (JStr ''https://files.slack.com/files-pri/T0-F0S43PZDF/cat.png'')),
     Print ''Checking image for explicit content...'',
     DetectModerationLabels ''image-bytes'' 80,
     PrintExn (Raised ''InvalidImageFormatException''),
     Print ''Unable to detect labels for image.''])"
  by (simp add: run_defs moderation_failing_world_def)

theorem moderation_failure_propagates_witness:
  "fst (lambda_handler sample_config moderation_failing_world
     (file_share_event (JStr ''secret'') (JStr ''image/png'') (JInt 5242880)))
     = Inl (Raised ''InvalidImageFormatException'') \<and>
   filter is_delete_call (snd (lambda_handler sample_config moderation_failing_world
     (file_share_event (JStr ''secret'') (JStr ''image/png'') (JInt 5242880)))) = [] \<and>
   filter is_post_call (snd (lambda_handler sample_config moderation_failing_world
     (file_share_event (JStr ''secret'') (JStr ''image/png'') (JInt 5242880)))) = [] \<and>
   fst (detect_explicit_content sample_config moderation_failing_world ''image-bytes'')
     = Inl (Raised ''InvalidImageFormatException'')"
proof -
  have called: "DetectModerationLabels ''image-bytes'' 80
      \<in> set (snd (lambda_handler sample_config moderation_failing_world
        (file_share_event (JStr ''secret'') (JStr ''image/png'') (JInt 5242880))))"
    by (simp add: sample_moderation_failure_run)
  have raised: "detect_moderation_labels moderation_failing_world ''image-bytes'' 80
      = Inl (Raised ''InvalidImageFormatException'')"
    by (simp add: moderation_failing_world_def)
  from moderation_failure_propagates [OF called raised] show ?thesis by simp
qed

text \<open>
  Claim C2. The verdict of \<^verbatim>\<open>detect_explicit_content\<close> is true exactly when the label
  collection of the response is non-empty; and in every invocation in which the moderation
  call is made and returns an empty collection, the verdict is false, the handler returns
  \<^verbatim>\<open>None\<close>, and neither the file-deletion call nor the message-post call is made.
\<close>

theorem no_labels_no_action:
  assumes "detect_moderation_labels w image_bytes (MIN_CONFIDENCE cfg) = Inr response"
    and "map_of response ''ModerationLabels'' = Some (JList labels)"
  shows "fst (detect_explicit_content cfg w image_bytes) = Inr (labels \<noteq> []) \<and>
         (labels = [] \<and>
          DetectModerationLabels image_bytes (MIN_CONFIDENCE cfg)
            \<in> set (snd (lambda_handler cfg w event)) \<longrightarrow>
            fst (lambda_handler cfg w event) = Inr JNull \<and>
            filter is_delete_call (snd (lambda_handler cfg w event)) = [] \<and>
            filter is_post_call (snd (lambda_handler cfg w event)) = [])"
proof -
  have verdict: "detect_explicit_content cfg w image_bytes =
      (Inr (labels \<noteq> []), [DetectModerationLabels image_bytes (MIN_CONFIDENCE cfg)])"
    using assms by (simp add: detect_explicit_content_returns)
  have "fst (lambda_handler cfg w event) = Inr JNull \<and>
        filter is_delete_call (snd (lambda_handler cfg w event)) = [] \<and>
        filter is_post_call (snd (lambda_handler cfg w event)) = []"
    if empty: "labels = []"
      and called: "DetectModerationLabels image_bytes (MIN_CONFIDENCE cfg)
        \<in> set (snd (lambda_handler cfg w event))"
  proof -
    from handler_moderation_call [OF called] obtain ed fd channel url file_id where
      gates: "map_of event ''token'' = Some (JStr (VERIFICATION_TOKEN cfg))"
        "dict_get event ''challenge'' = JNull"
        "validate_event event = (Inr True, [])"
        "map_of event ''event'' = Some (JDict ed)"
        "map_of ed ''file'' = Some (JDict fd)"
        "map_of ed ''channel'' = Some channel"
        "map_of fd ''url_private'' = Some url"
        "map_of fd ''id'' = Some file_id"
      and built: "Request_raises w url = None"
      and dl: "urlopen w (download_request cfg url) = Inr image_bytes"
      by blast
    have run: "lambda_handler cfg w event =
        (Inr JNull, [Print ''Validating message...'', Print ''Downloading image...'',
                     Urlopen (download_request cfg url),
                     Print ''Checking image for explicit content...'',
                     DetectModerationLabels image_bytes (MIN_CONFIDENCE cfg)])"
      unfolding handler_past_gates [OF gates]
      by (simp add: download_image_def built dl verdict empty)
    show ?thesis unfolding run by (simp add: download_request_def)
  qed
  with verdict show ?thesis by simp
qed

lemma sample_clean_run:
  "lambda_handler sample_config clean_world
     (file_share_event (JStr ''secret'') (JStr ''image/jpeg'') (JInt 204800)) =
   (Inr JNull,
    [Print ''Validating message...'', Print ''Downloading image...'',
     Urlopen (download_request sample_config
       (JStr ''https://files.slack.com/files-pri/T0-F0S43PZDF/cat.png'')),
     Print ''Checking image for explicit content...'',
     DetectModerationLabels ''image-bytes'' 80])"
  by (simp add: run_defs clean_world_def)

theorem no_labels_no_action_witness:
  "fst (detect_explicit_content sample_config clean_world ''image-bytes'') = Inr False \<and>
   fst (lambda_handler sample_config clean_world
     (file_share_event (JStr ''secret'') (JStr ''image/jpeg'') (JInt 204800))) = Inr JNull \<and>
   filter is_delete_call (snd (lambda_handler sample_config clean_world
     (file_share_event (JStr ''secret'') (JStr ''image/jpeg'') (JInt 204800)))) = [] \<and>
   filter is_post_call (snd (lambda_handler sample_config clean_world
     (file_share_event (JStr ''secret'') (JStr ''image/jpeg'') (JInt 204800)))) = [] \<and>
   fst (detect_explicit_content sample_config explicit_world ''image-bytes'') = Inr True"
proof -
  have answer: "detect_moderation_labels clean_world ''image-bytes''
      (MIN_CONFIDENCE sample_config) = Inr [(''ModerationLabels'', JList [])]"
    by (simp add: clean_world_def)
  have labels: "map_of [(''ModerationLabels'', JList [])] ''ModerationLabels'' = Some (JList [])"
    by simp
  have called: "DetectModerationLabels ''image-bytes'' (MIN_CONFIDENCE sample_config)
      \<in> set (snd (lambda_handler sample_config clean_world
        (file_share_event (JStr ''secret'') (JStr ''image/jpeg'') (JInt 204800))))"
    unfolding sample_clean_run by (simp add: sample_config_def)
  have answer': "detect_moderation_labels explicit_world ''image-bytes''
      (MIN_CONFIDENCE sample_config) = Inr [(''ModerationLabels'', JList [sample_label])]"
    by (simp add: explicit_world_def)
  have labels': "map_of [(''ModerationLabels'', JList [sample_label])] ''ModerationLabels''
      = Some (JList [sample_label])"
    by simp
  from no_labels_no_action [OF answer labels,
      of "file_share_event (JStr ''secret'') (JStr ''image/jpeg'') (JInt 204800)"]
    no_labels_no_action [OF answer' labels', of "[]"] called
  show ?thesis by simp
qed

section \<open>Deleting the file and notifying the channel\<close>





section \<open>Validation of the event\<close>

text \<open>
  Claim C6, as stated, for every \<^verbatim>\<open>file_share\<close> event with a supported mimetype: the half
  about \<^verbatim>\<open>file.size = 5242880\<close> fails where the handler stops before the download step of
  lines 36 and 37. With a token that does not match it returns at line 19; with a challenge
  it returns the echo at line 24; without \<^verbatim>\<open>channel\<close>, \<^verbatim>\<open>url_private\<close> or \<^verbatim>\<open>id\<close> lines 32
  to 34 raise \<^verbatim>\<open>KeyError\<close>. Each event below is a \<^verbatim>\<open>file_share\<close> event of an \<^verbatim>\<open>image/png\<close>
  of exactly 5242880 bytes; no run prints \<^verbatim>\<open>Downloading image...\<close> or makes an outbound call.
\<close>

theorem size_at_limit_counterexample:
  "lambda_handler sample_config explicit_world
     (file_share_event (JStr ''forged'') (JStr ''image/png'') (JInt 5242880)) =
     (Inr JNull,
      [Print ''Validating message...'',
       Print ''Presented with invalid token- ignoring message...'']) \<and>
   lambda_handler sample_config explicit_world
     ((''challenge'', JStr ''abc123'') #
      file_share_event (JStr ''secret'') (JStr ''image/png'') (JInt 5242880)) =
     (Inr (JDict [(''challenge'', JStr ''abc123'')]),
      [Print ''Validating message...'',
       Print ''Presented with URL verification challenge- responding accordingly...'']) \<and>
   lambda_handler sample_config explicit_world
     [(''token'', JStr ''secret''),
      (''event'', JDict
         [(''subtype'', JStr ''file_share''),
          (''file'', JDict
             [(''id'', JStr ''F0S43PZDF''),
              (''mimetype'', JStr ''image/png''),
              (''size'', JInt 5242880),
              (''url_private'',
               JStr ''https://files.slack.com/files-pri/T0-F0S43PZDF/cat.png'')])])] =
     (Inl (KeyError ''channel''), [Print ''Validating message...'']) \<and>
   lambda_handler sample_config explicit_world
     [(''token'', JStr ''secret''),
      (''event'', JDict
         [(''subtype'', JStr ''file_share''),
          (''channel'', JStr ''C024BE91L''),
          (''file'', JDict
             [(''id'', JStr ''F0S43PZDF''),
              (''mimetype'', JStr ''image/png''),
              (''size'', JInt 5242880)])])] =
     (Inl (KeyError ''url_private''), [Print ''Validating message...'']) \<and>
   lambda_handler sample_config explicit_world
     [(''token'', JStr ''secret''),
      (''event'', JDict
         [(''subtype'', JStr ''file_share''),
          (''channel'', JStr ''C024BE91L''),
          (''file'', JDict
             [(''mimetype'', JStr ''image/png''),
              (''size'', JInt 5242880),
              (''url_private'',
               JStr ''https://files.slack.com/files-pri/T0-F0S43PZDF/cat.png'')])])] =
     (Inl (KeyError ''id''), [Print ''Validating message...''])"
  by (simp add: run_defs explicit_world_def)

text \<open>
  Claim C6, amended. For every \<^verbatim>\<open>file_share\<close> event with a supported mimetype and an integer
  \<^verbatim>\<open>file.size\<close>: above the maximum of 5242880 bytes (so at 5242881) \<^verbatim>\<open>validate_event\<close>
  returns \<^verbatim>\<open>False\<close> and the handler makes no outbound call, whatever else the event holds;
  up to the maximum (so at 5242880) \<^verbatim>\<open>validate_event\<close> returns \<^verbatim>\<open>True\<close>, and when the token
  matches, the event has no challenge and it carries \<^verbatim>\<open>channel\<close>, \<^verbatim>\<open>url_private\<close> and \<^verbatim>\<open>id\<close>,
  processing proceeds to the download step: the handler prints \<^verbatim>\<open>Downloading image...\<close> and
  runs \<^verbatim>\<open>download_image\<close> on \<^verbatim>\<open>url_private\<close>, and when the constructor accepts that URL the
  download is the first outbound call. (For a URL it refuses, line 110 raises and nothing
  is opened, as \<open>refused_url_run\<close> shows.)
\<close>

theorem size_limit_inclusive:
  assumes "map_of event ''event'' = Some (JDict ed)"
    and "dict_get ed ''subtype'' = JStr ''file_share''"
    and "map_of ed ''file'' = Some (JDict fd)"
    and "map_of fd ''mimetype'' = Some m"
    and "m \<in> set SUPPORTED_TYPES"
    and "map_of fd ''size'' = Some (JInt n)"
  shows "MAX_SIZE = 5242880 \<and>
         (MAX_SIZE < n \<longrightarrow>
            fst (validate_event event) = Inr False \<and>
            calls (snd (lambda_handler cfg w event)) = []) \<and>
         (n \<le> MAX_SIZE \<longrightarrow>
            validate_event event = (Inr True, []) \<and>
            (map_of event ''token'' = Some (JStr (VERIFICATION_TOKEN cfg)) \<and>
             dict_get event ''challenge'' = JNull \<and>
             map_of ed ''channel'' = Some channel \<and>
             map_of fd ''url_private'' = Some url \<and>
             map_of fd ''id'' = Some file_id \<longrightarrow>
               (\<exists>t. snd (lambda_handler cfg w event) =
                  [Print ''Validating message...'', Print ''Downloading image...''] @
                  snd (download_image cfg w url) @ t) \<and>
               (Request_raises w url = None \<longrightarrow>
                 (\<exists>t. snd (lambda_handler cfg w event) =
                    [Print ''Validating message...'', Print ''Downloading image...'',
                     Urlopen (download_request cfg url)] @ t))))"
proof -
  note validate = validate_event_accepts [OF assms]
  have over: "fst (validate_event event) = Inr False \<and>
      calls (snd (lambda_handler cfg w event)) = []" if "MAX_SIZE < n"
  proof -
    from that have rejected: "fst (validate_event event) = Inr False"
      unfolding validate by simp
    have "calls (snd (lambda_handler cfg w event)) = []"
    proof (rule ccontr)
      assume "calls (snd (lambda_handler cfg w event)) \<noteq> []"
      then have "validate_event event = (Inr True, [])"
        using handler_calls_gates by blast
      with rejected show False by simp
    qed
    with rejected show ?thesis by simp
  qed
  have within: "validate_event event = (Inr True, [])" if "n \<le> MAX_SIZE"
    using that unfolding validate by simp
  have proceeds: "\<exists>t. snd (lambda_handler cfg w event) =
      [Print ''Validating message...'', Print ''Downloading image...''] @
      snd (download_image cfg w url) @ t"
    if "n \<le> MAX_SIZE"
      and "map_of event ''token'' = Some (JStr (VERIFICATION_TOKEN cfg))"
      and "dict_get event ''challenge'' = JNull"
      and "map_of ed ''channel'' = Some channel"
      and "map_of fd ''url_private'' = Some url"
      and "map_of fd ''id'' = Some file_id"
  proof -
    note past = handler_past_gates [OF that(2,3) within [OF that(1)] assms(1,3) that(4-6), of w]
    show ?thesis
      unfolding past
      by (cases "fst (download_image cfg w url)")
        (simp_all add: and_then_cases [of "download_image cfg w url"])
  qed
  have downloads: "\<exists>t. snd (lambda_handler cfg w event) =
      [Print ''Validating message...'', Print ''Downloading image...'',
       Urlopen (download_request cfg url)] @ t"
    if "n \<le> MAX_SIZE"
      and "map_of event ''token'' = Some (JStr (VERIFICATION_TOKEN cfg))"
      and "dict_get event ''challenge'' = JNull"
      and "map_of ed ''channel'' = Some channel"
      and "map_of fd ''url_private'' = Some url"
      and "map_of fd ''id'' = Some file_id"
      and "Request_raises w url = None"
    using proceeds [OF that(1-6)] that(7) by (simp add: download_image_def)
  from over within proceeds downloads show ?thesis by (simp add: MAX_SIZE_def)
qed

theorem size_limit_inclusive_witness:
  "fst (validate_event (file_share_event (JStr ''secret'') (JStr ''image/png'') (JInt 5242881)))
     = Inr False \<and>
   calls (snd (lambda_handler sample_config explicit_world
     (file_share_event (JStr ''secret'') (JStr ''image/png'') (JInt 5242881)))) = [] \<and>
   validate_event (file_share_event (JStr ''secret'') (JStr ''image/png'') (JInt 5242880))
     = (Inr True, []) \<and>
   (\<exists>t. snd (lambda_handler sample_config explicit_world
       (file_share_event (JStr ''secret'') (JStr ''image/png'') (JInt 5242880))) =
     [Print ''Validating message...'', Print ''Downloading image...'',
      Urlopen (download_request sample_config
        (JStr ''https://files.slack.com/files-pri/T0-F0S43PZDF/cat.png''))] @ t)"
proof -
  let ?url = "JStr ''https://files.slack.com/files-pri/T0-F0S43PZDF/cat.png''"
  let ?fd = "\<lambda>n. [(''id'', JStr ''F0S43PZDF''), (''mimetype'', JStr ''image/png''),
      (''size'', JInt n), (''url_private'', ?url)]"
  let ?ed = "\<lambda>n. [(''subtype'', JStr ''file_share''), (''channel'', JStr ''C024BE91L''),
      (''file'', JDict (?fd n))]"
  let ?event = "\<lambda>n. file_share_event (JStr ''secret'') (JStr ''image/png'') (JInt n)"
  have nested: "map_of (?event n) ''event'' = Some (JDict (?ed n))"
    and subtype: "dict_get (?ed n) ''subtype'' = JStr ''file_share''"
    and file_obj: "map_of (?ed n) ''file'' = Some (JDict (?fd n))"
    and mimetype: "map_of (?fd n) ''mimetype'' = Some (JStr ''image/png'')"
    and size: "map_of (?fd n) ''size'' = Some (JInt n)" for n
    by (simp_all add: file_share_event_def dict_get_def)
  have supported: "JStr ''image/png'' \<in> set SUPPORTED_TYPES"
    by (simp add: SUPPORTED_TYPES_def)
  have gates: "map_of (?event 5242880) ''token'' = Some (JStr (VERIFICATION_TOKEN sample_config))"
      "dict_get (?event 5242880) ''challenge'' = JNull"
      "map_of (?ed 5242880) ''channel'' = Some (JStr ''C024BE91L'')"
      "map_of (?fd 5242880) ''url_private'' = Some ?url"
      "map_of (?fd 5242880) ''id'' = Some (JStr ''F0S43PZDF'')"
      "Request_raises explicit_world ?url = None"
    by (simp_all add: file_share_event_def dict_get_def sample_config_def explicit_world_def
        sample_Request_raises_def)
  have over: "fst (validate_event (?event 5242881)) = Inr False \<and>
      calls (snd (lambda_handler sample_config explicit_world (?event 5242881))) = []"
    using size_limit_inclusive [OF nested subtype file_obj mimetype supported size,
      where n = 5242881 and cfg = sample_config and w = explicit_world,
      THEN conjunct2, THEN conjunct1]
    by (simp add: MAX_SIZE_def)
  have within: "validate_event (?event 5242880) = (Inr True, []) \<and>
      (\<exists>t. snd (lambda_handler sample_config explicit_world (?event 5242880)) =
         [Print ''Validating message...'', Print ''Downloading image...'',
          Urlopen (download_request sample_config ?url)] @ t)"
    using size_limit_inclusive [OF nested subtype file_obj mimetype supported size,
      where n = 5242880 and cfg = sample_config and w = explicit_world
        and channel = "JStr ''C024BE91L''" and url = ?url and file_id = "JStr ''F0S43PZDF''",
      THEN conjunct2, THEN conjunct2] gates
    by (simp add: MAX_SIZE_def)
  from over within show ?thesis by simp
qed

lemma refused_url_run:
  "lambda_handler sample_config explicit_world
     [(''token'', JStr ''secret''),
      (''event'', JDict
         [(''subtype'', JStr ''file_share''),
          (''channel'', JStr ''C024BE91L''),
          (''file'', JDict
             [(''id'', JStr ''F0S43PZDF''),
              (''mimetype'', JStr ''image/png''),
              (''size'', JInt 5242880),
              (''url_private'', JStr ''not-a-url'')])])] =
     (Inl ValueError, [Print ''Validating message...'', Print ''Downloading image...''])"
  by (simp add: run_defs explicit_world_def)

text \<open>
  Claim C7, as stated, for every event with a matching token and no challenge: it fails
  where a field that \<^verbatim>\<open>validate_event\<close> reads is absent. Lines 84 and 85 read
  \<^verbatim>\<open>mimetype\<close> and \<^verbatim>\<open>size\<close> before line 87 checks the mimetype, so a \<^verbatim>\<open>file_share\<close> event
  whose file is an \<^verbatim>\<open>image/gif\<close> without a \<^verbatim>\<open>size\<close> raises \<^verbatim>\<open>KeyError('size')\<close>; and line
  76 raises \<^verbatim>\<open>KeyError('event')\<close> on an event without the nested \<^verbatim>\<open>event\<close> object, which
  has no subtype \<^verbatim>\<open>file_share\<close>. Neither run returns.
\<close>

theorem missing_size_counterexample:
  "fst (lambda_handler sample_config clean_world
     [(''token'', JStr ''secret''),
      (''event'', JDict
         [(''subtype'', JStr ''file_share''),
          (''channel'', JStr ''C024BE91L''),
          (''file'', JDict
             [(''id'', JStr ''F0S43PZDF''),
              (''mimetype'', JStr ''image/gif''),
              (''url_private'',
               JStr ''https://files.slack.com/files-pri/T0-F0S43PZDF/cat.gif'')])])])
     = Inl (KeyError ''size'') \<and>
   fst (lambda_handler sample_config clean_world [(''token'', JStr ''secret'')])
     = Inl (KeyError ''event'')"
  by (simp add: run_defs)

text \<open>
  Claim C7, amended. For every event with a matching token, no challenge and a nested
  \<^verbatim>\<open>event\<close> object: if \<^verbatim>\<open>event.subtype\<close> is absent or differs from \<^verbatim>\<open>file_share\<close>, or if the
  \<^verbatim>\<open>file\<close> object carries a \<^verbatim>\<open>size\<close> and a \<^verbatim>\<open>mimetype\<close> that is none of \<^verbatim>\<open>image/jpeg\<close>,
  \<^verbatim>\<open>image/jpg\<close>, \<^verbatim>\<open>image/png\<close>, the handler makes no outbound call and returns \<^verbatim>\<open>None\<close>.
\<close>

theorem unsupported_event_ignored:
  assumes "map_of event ''token'' = Some (JStr (VERIFICATION_TOKEN cfg))"
    and "dict_get event ''challenge'' = JNull"
    and "map_of event ''event'' = Some (JDict ed)"
    and "dict_get ed ''subtype'' \<noteq> JStr ''file_share'' \<or>
         (map_of ed ''file'' = Some (JDict fd) \<and> map_of fd ''mimetype'' = Some m \<and>
          m \<notin> set SUPPORTED_TYPES \<and> map_of fd ''size'' = Some s)"
  shows "fst (lambda_handler cfg w event) = Inr JNull \<and>
         calls (snd (lambda_handler cfg w event)) = [] \<and>
         set SUPPORTED_TYPES = {JStr ''image/jpeg'', JStr ''image/jpg'', JStr ''image/png''}"
proof -
  have rejected: "fst (validate_event event) = Inr False"
  proof (cases "dict_get ed ''subtype'' = JStr ''file_share''")
    case False
    with assms(3) show ?thesis
      by (simp add: validate_event_def dict_item_def)
  next
    case True
    with assms(4) have "map_of ed ''file'' = Some (JDict fd)"
      and "map_of fd ''mimetype'' = Some m" and "m \<notin> set SUPPORTED_TYPES"
      and "map_of fd ''size'' = Some s"
      by simp_all
    with assms(3) True show ?thesis
      by (simp add: validate_event_def dict_item_def)
  qed
  then have "lambda_handler cfg w event =
      (Inr JNull, Print ''Validating message...'' # snd (validate_event event))"
    using assms(1,2) by (simp add: handler_not_valid)
  then show ?thesis
    using validate_event_no_calls [of event] by (simp add: calls_def SUPPORTED_TYPES_def)
qed

theorem unsupported_event_ignored_witness:
  "fst (lambda_handler sample_config explicit_world
     [(''token'', JStr ''secret''),
      (''event'', JDict [(''subtype'', JStr ''message_changed''),
                         (''channel'', JStr ''C024BE91L'')])]) = Inr JNull \<and>
   calls (snd (lambda_handler sample_config explicit_world
     [(''token'', JStr ''secret''),
      (''event'', JDict [(''subtype'', JStr ''message_changed''),
                         (''channel'', JStr ''C024BE91L'')])])) = [] \<and>
   fst (lambda_handler sample_config explicit_world
     (file_share_event (JStr ''secret'') (JStr ''image/gif'') (JInt 1024))) = Inr JNull \<and>
   calls (snd (lambda_handler sample_config explicit_world
     (file_share_event (JStr ''secret'') (JStr ''image/gif'') (JInt 1024)))) = []"
proof -
  let ?other = "[(''token'', JStr ''secret''),
      (''event'', JDict [(''subtype'', JStr ''message_changed''),
                         (''channel'', JStr ''C024BE91L'')])]"
  let ?fd = "[(''id'', JStr ''F0S43PZDF''), (''mimetype'', JStr ''image/gif''),
      (''size'', JInt 1024),
      (''url_private'', JStr ''https://files.slack.com/files-pri/T0-F0S43PZDF/cat.png'')]"
  let ?ed = "[(''subtype'', JStr ''file_share''), (''channel'', JStr ''C024BE91L''),
      (''file'', JDict ?fd)]"
  let ?gif = "file_share_event (JStr ''secret'') (JStr ''image/gif'') (JInt 1024)"
  have other: "map_of ?other ''token'' = Some (JStr (VERIFICATION_TOKEN sample_config))"
      "dict_get ?other ''challenge'' = JNull"
      "map_of ?other ''event'' = Some (JDict [(''subtype'', JStr ''message_changed''),
                         (''channel'', JStr ''C024BE91L'')])"
      "dict_get [(''subtype'', JStr ''message_changed''), (''channel'', JStr ''C024BE91L'')]
         ''subtype'' \<noteq> JStr ''file_share'' \<or>
       (map_of [(''subtype'', JStr ''message_changed''), (''channel'', JStr ''C024BE91L'')]
          ''file'' = Some (JDict []) \<and> map_of [] ''mimetype'' = Some JNull \<and>
        JNull \<notin> set SUPPORTED_TYPES \<and> map_of [] ''size'' = Some JNull)"
    by (simp_all add: dict_get_def sample_config_def)
  have gif: "map_of ?gif ''token'' = Some (JStr (VERIFICATION_TOKEN sample_config))"
      "dict_get ?gif ''challenge'' = JNull"
      "map_of ?gif ''event'' = Some (JDict ?ed)"
      "dict_get ?ed ''subtype'' \<noteq> JStr ''file_share'' \<or>
       (map_of ?ed ''file'' = Some (JDict ?fd) \<and>
        map_of ?fd ''mimetype'' = Some (JStr ''image/gif'') \<and>
        JStr ''image/gif'' \<notin> set SUPPORTED_TYPES \<and> map_of ?fd ''size'' = Some (JInt 1024))"
    by (simp_all add: file_share_event_def dict_get_def sample_config_def SUPPORTED_TYPES_def)
  from unsupported_event_ignored [OF other, of explicit_world]
    unsupported_event_ignored [OF gif, of explicit_world]
  show ?thesis by simp
qed

text \<open>
  Claim C9. For an event with a matching token and no challenge, a missing field is a
  \<^verbatim>\<open>KeyError\<close> that leaves the handler uncaught before any outbound call, not a silent
  return: \<^verbatim>\<open>KeyError('event')\<close> when the nested \<^verbatim>\<open>event\<close> object is missing, and for an
  event of subtype \<^verbatim>\<open>file_share\<close> \<^verbatim>\<open>KeyError('file')\<close>, \<^verbatim>\<open>KeyError('mimetype')\<close> or
  \<^verbatim>\<open>KeyError('size')\<close> when the \<^verbatim>\<open>file\<close> object or that field of it is missing.
\<close>

theorem missing_fields_key_error:
  assumes "map_of event ''token'' = Some (JStr (VERIFICATION_TOKEN cfg))"
    and "dict_get event ''challenge'' = JNull"
  shows "(map_of event ''event'' = None \<longrightarrow>
            fst (lambda_handler cfg w event) = Inl (KeyError ''event'') \<and>
            calls (snd (lambda_handler cfg w event)) = []) \<and>
         (map_of event ''event'' = Some (JDict ed) \<and>
          dict_get ed ''subtype'' = JStr ''file_share'' \<longrightarrow>
            (map_of ed ''file'' = None \<longrightarrow>
               fst (lambda_handler cfg w event) = Inl (KeyError ''file'') \<and>
               calls (snd (lambda_handler cfg w event)) = []) \<and>
            (map_of ed ''file'' = Some (JDict fd) \<and> map_of fd ''mimetype'' = None \<longrightarrow>
               fst (lambda_handler cfg w event) = Inl (KeyError ''mimetype'') \<and>
               calls (snd (lambda_handler cfg w event)) = []) \<and>
            (map_of ed ''file'' = Some (JDict fd) \<and> map_of fd ''mimetype'' = Some m \<and>
             map_of fd ''size'' = None \<longrightarrow>
               fst (lambda_handler cfg w event) = Inl (KeyError ''size'') \<and>
               calls (snd (lambda_handler cfg w event)) = []))"
proof -
  have raised: "fst (lambda_handler cfg w event) = Inl (KeyError k) \<and>
      calls (snd (lambda_handler cfg w event)) = []"
    if "fst (validate_event event) = Inl (KeyError k)" for k
  proof -
    from that have "lambda_handler cfg w event =
        (Inl (KeyError k), Print ''Validating message...'' # snd (validate_event event))"
      using assms by (simp add: handler_not_valid)
    then show ?thesis
      using validate_event_no_calls [of event] by (simp add: calls_def)
  qed
  have "fst (validate_event event) = Inl (KeyError ''event'')"
    if "map_of event ''event'' = None"
    using that by (simp add: validate_event_def dict_item_def)
  moreover have "fst (validate_event event) = Inl (KeyError ''file'')"
    if "map_of event ''event'' = Some (JDict ed)"
      and "dict_get ed ''subtype'' = JStr ''file_share''" and "map_of ed ''file'' = None"
    using that by (simp add: validate_event_def dict_item_def)
  moreover have "fst (validate_event event) = Inl (KeyError ''mimetype'')"
    if "map_of event ''event'' = Some (JDict ed)"
      and "dict_get ed ''subtype'' = JStr ''file_share''"
      and "map_of ed ''file'' = Some (JDict fd)" and "map_of fd ''mimetype'' = None"
    using that by (simp add: validate_event_def dict_item_def)
  moreover have "fst (validate_event event) = Inl (KeyError ''size'')"
    if "map_of event ''event'' = Some (JDict ed)"
      and "dict_get ed ''subtype'' = JStr ''file_share''"
      and "map_of ed ''file'' = Some (JDict fd)" and "map_of fd ''mimetype'' = Some m"
      and "map_of fd ''size'' = None"
    using that by (simp add: validate_event_def dict_item_def)
  ultimately show ?thesis using raised by blast
qed


theorem missing_fields_key_error_witness:
  "fst (lambda_handler sample_config explicit_world [(''token'', JStr ''secret'')])
     = Inl (KeyError ''event'') \<and>
   calls (snd (lambda_handler sample_config explicit_world [(''token'', JStr ''secret'')])) = [] \<and>
   fst (lambda_handler sample_config explicit_world
     [(''token'', JStr ''secret''),
      (''event'', JDict [(''subtype'', JStr ''file_share''), (''channel'', JStr ''C024BE91L'')])])
     = Inl (KeyError ''file'') \<and>
   calls (snd (lambda_handler sample_config explicit_world
     [(''token'', JStr ''secret''),
      (''event'', JDict [(''subtype'', JStr ''file_share''), (''channel'', JStr ''C024BE91L'')])]))
     = [] \<and>
   fst (lambda_handler sample_config explicit_world
     [(''token'', JStr ''secret''),
      (''event'', JDict [(''subtype'', JStr ''file_share''), (''channel'', JStr ''C024BE91L''),
         (''file'', JDict [(''id'', JStr ''F0S43PZDF''), (''size'', JInt 1024)])])])
     = Inl (KeyError ''mimetype'') \<and>
   calls (snd (lambda_handler sample_config explicit_world
     [(''token'', JStr ''secret''),
      (''event'', JDict [(''subtype'', JStr ''file_share''), (''channel'', JStr ''C024BE91L''),
         (''file'', JDict [(''id'', JStr ''F0S43PZDF''), (''size'', JInt 1024)])])]))
     = [] \<and>
   fst (lambda_handler sample_config explicit_world
     [(''token'', JStr ''secret''),
      (''event'', JDict [(''subtype'', JStr ''file_share''), (''channel'', JStr ''C024BE91L''),
         (''file'', JDict [(''id'', JStr ''F0S43PZDF''), (''mimetype'', JStr ''image/png'')])])])
     = Inl (KeyError ''size'') \<and>
   calls (snd (lambda_handler sample_config explicit_world
     [(''token'', JStr ''secret''),
      (''event'', JDict [(''subtype'', JStr ''file_share''), (''channel'', JStr ''C024BE91L''),
         (''file'', JDict [(''id'', JStr ''F0S43PZDF''), (''mimetype'', JStr ''image/png'')])])]))
     = []"
proof -
  let ?no_event = "[(''token'', JStr ''secret'')]"
  let ?ed = "\<lambda>rest. (''subtype'', JStr ''file_share'') # (''channel'', JStr ''C024BE91L'') # rest"
  let ?event = "\<lambda>rest. [(''token'', JStr ''secret''), (''event'', JDict (?ed rest))]"
  let ?no_mimetype = "[(''id'', JStr ''F0S43PZDF''), (''size'', JInt 1024)]"
  let ?no_size = "[(''id'', JStr ''F0S43PZDF''), (''mimetype'', JStr ''image/png'')]"
  have token: "map_of ?no_event ''token'' = Some (JStr (VERIFICATION_TOKEN sample_config))"
      "map_of (?event rest) ''token'' = Some (JStr (VERIFICATION_TOKEN sample_config))" for rest
    by (simp_all add: sample_config_def)
  have challenge: "dict_get ?no_event ''challenge'' = JNull"
      "dict_get (?event rest) ''challenge'' = JNull" for rest
    by (simp_all add: dict_get_def)
  have nested: "map_of (?event rest) ''event'' = Some (JDict (?ed rest))"
      "dict_get (?ed rest) ''subtype'' = JStr ''file_share''" for rest
    by (simp_all add: dict_get_def)
  have no_event: "fst (lambda_handler sample_config explicit_world ?no_event)
        = Inl (KeyError ''event'') \<and>
      calls (snd (lambda_handler sample_config explicit_world ?no_event)) = []"
    using missing_fields_key_error [OF token(1) challenge(1), of explicit_world]
    by simp
  have no_file: "fst (lambda_handler sample_config explicit_world (?event []))
        = Inl (KeyError ''file'') \<and>
      calls (snd (lambda_handler sample_config explicit_world (?event []))) = []"
    using missing_fields_key_error [OF token(2) challenge(2), of "[]" explicit_world "?ed []"]
      nested [of "[]"]
    by simp
  have no_mimetype: "fst (lambda_handler sample_config explicit_world
          (?event [(''file'', JDict ?no_mimetype)])) = Inl (KeyError ''mimetype'') \<and>
      calls (snd (lambda_handler sample_config explicit_world
          (?event [(''file'', JDict ?no_mimetype)]))) = []"
    using missing_fields_key_error [OF token(2) challenge(2),
        of "[(''file'', JDict ?no_mimetype)]" explicit_world
          "?ed [(''file'', JDict ?no_mimetype)]" ?no_mimetype]
      nested [of "[(''file'', JDict ?no_mimetype)]"]
    by simp
  have no_size: "fst (lambda_handler sample_config explicit_world
          (?event [(''file'', JDict ?no_size)])) = Inl (KeyError ''size'') \<and>
      calls (snd (lambda_handler sample_config explicit_world
          (?event [(''file'', JDict ?no_size)]))) = []"
    using missing_fields_key_error [OF token(2) challenge(2),
        of "[(''file'', JDict ?no_size)]" explicit_world
          "?ed [(''file'', JDict ?no_size)]" ?no_size "JStr ''image/png''"]
      nested [of "[(''file'', JDict ?no_size)]"]
    by simp
  from no_event no_file no_mimetype no_size show ?thesis by simp
qed

end
